theory Spec2Isabelle
  imports Complex_Main
begin

section \<open>Python strings\<close>

text \<open>
  A Python \<open>str\<close> is a sequence of Unicode code points, and \<open>len\<close> counts code
  points; it is modelled as a list of natural numbers. \<open>str\<close> turns an ASCII literal
  into such a list.
\<close>

type_synonym pystr = "nat list"

definition str :: "string \<Rightarrow> pystr" where
  "str s = map of_char s"

text \<open>
  \<open>str.isspace\<close> of one code point: the characters that \<open>split()\<close> and
  \<open>strip()\<close> without arguments treat as white space.
\<close>

definition isspace :: "nat \<Rightarrow> bool" where
  "isspace c \<longleftrightarrow>
     (9 \<le> c \<and> c \<le> 13) \<or> (28 \<le> c \<and> c \<le> 32) \<or> c = 133 \<or> c = 160 \<or> c = 5760 \<or>
     (8192 \<le> c \<and> c \<le> 8202) \<or> c = 8232 \<or> c = 8233 \<or> c = 8239 \<or> c = 8287 \<or> c = 12288"

text \<open>
  \<open>str.lower\<close>, on the ASCII letters only. It stands for the call in the test
  \<open>"http" in text.lower()\<close>: no code point outside ASCII has \<open>h\<close>, \<open>t\<close> or \<open>p\<close>
  in its lower case, so that test has the value it has in Python. On ASCII strings it is
  Python's \<open>str.lower\<close>.
\<close>

definition lower_cp :: "nat \<Rightarrow> nat" where
  "lower_cp c = (if 65 \<le> c \<and> c \<le> 90 then c + 32 else c)"

definition lower :: "pystr \<Rightarrow> pystr" where
  "lower s = map lower_cp s"

text \<open>\<open>s.startswith(p)\<close> and \<open>sub in s\<close>.\<close>

fun startswith :: "pystr \<Rightarrow> pystr \<Rightarrow> bool" where
  "startswith s [] = True"
| "startswith [] (p # ps) = False"
| "startswith (c # cs) (p # ps) = (c = p \<and> startswith cs ps)"

fun contains :: "pystr \<Rightarrow> pystr \<Rightarrow> bool" where
  "contains [] sub = (sub = [])"
| "contains (c # cs) sub = (startswith (c # cs) sub \<or> contains cs sub)"

text \<open>
  \<open>s.replace(old, new)\<close>: every occurrence of \<open>old\<close>, found from the left and not
  overlapping, becomes \<open>new\<close>. With an empty \<open>old\<close> Python puts \<open>new\<close> before every
  character and at the end.
\<close>

function replace :: "pystr \<Rightarrow> pystr \<Rightarrow> pystr \<Rightarrow> pystr" where
  "replace [] old new = (if old = [] then new else [])"
| "replace (c # cs) old new =
     (if old = [] then new @ c # replace cs old new
      else if startswith (c # cs) old then new @ replace (drop (length old) (c # cs)) old new
      else c # replace cs old new)"
  by pat_completeness auto
termination
  by (relation "measure (\<lambda>(s, old, new). length s)") auto

text \<open>\<open>s.split()\<close>: the maximal runs of characters that are not white space.\<close>

fun split_from :: "pystr \<Rightarrow> pystr \<Rightarrow> pystr list" where
  "split_from word [] = (if word = [] then [] else [word])"
| "split_from word (c # cs) =
     (if isspace c then (if word = [] then split_from [] cs else word # split_from [] cs)
      else split_from (word @ [c]) cs)"

definition split :: "pystr \<Rightarrow> pystr list" where
  "split s = split_from [] s"

text \<open>\<open>sep.join(words)\<close> and \<open>s.strip()\<close>.\<close>

fun join :: "pystr \<Rightarrow> pystr list \<Rightarrow> pystr" where
  "join sep [] = []"
| "join sep [w] = w"
| "join sep (w # v # ws) = w @ sep @ join sep (v # ws)"

definition strip :: "pystr \<Rightarrow> pystr" where
  "strip s = rev (dropWhile isspace (rev (dropWhile isspace s)))"

section \<open>Configuration (config.py)\<close>

text \<open>
  The dataclass \<open>Config\<close> with the fields the modelled components read, and the
  global instance \<open>config\<close> with the defaults of the source. Times are seconds; the
  Python floats are modelled as real numbers.
\<close>

record Config =
  hotkey :: "pystr list"
  tts_hotkey :: "pystr list"
  show_system_tray :: bool
  show_notifications :: bool
  min_recording_duration :: real
  max_recording_duration :: real

definition config :: Config where
  "config = \<lparr> hotkey = [str ''ctrl'', str ''f1''], tts_hotkey = [str ''ctrl'', str ''f2''],
              show_system_tray = True, show_notifications = True,
              min_recording_duration = 1 / 2, max_recording_duration = 30 \<rparr>"

section \<open>Chord detection (hotkey_handler.py)\<close>

text \<open>
  A pynput key is either a \<open>KeyCode\<close>, which has an attribute \<open>char\<close> (possibly
  \<open>None\<close>) and no attribute \<open>name\<close>, or a member of the enumeration \<open>Key\<close>,
  which has a \<open>name\<close> and no \<open>char\<close>.
\<close>

datatype key = KeyCode "pystr option" | Key pystr

text \<open>
  \<open>_get_key_name\<close>. The Unicode case table behind \<open>str.lower\<close> is not part of the
  repository: \<open>str_lower\<close> stands for that function. It is a parameter of the chord
  detector, and what is proved of the detector holds for every such function.
\<close>

definition get_key_name :: "(pystr \<Rightarrow> pystr) \<Rightarrow> key \<Rightarrow> pystr option" where
  "get_key_name str_lower k =
     (case k of
        KeyCode c \<Rightarrow>
          (case c of None \<Rightarrow> None
           | Some ch \<Rightarrow> if ch \<noteq> [] then Some (str_lower ch) else None)
      | Key nm \<Rightarrow>
          (let key_name = str_lower nm in
           if key_name = str ''ctrl_l'' \<or> key_name = str ''ctrl_r'' then Some (str ''ctrl'')
           else if key_name = str ''alt_l'' \<or> key_name = str ''alt_r'' then Some (str ''alt'')
           else if key_name = str ''shift_l'' \<or> key_name = str ''shift_r'' then Some (str ''shift'')
           else if key_name = str ''cmd_l'' \<or> key_name = str ''cmd_r'' then Some (str ''cmd'')
           else Some key_name))"

text \<open>
  The state of a \<open>HotkeyHandler\<close>. The three callbacks are recorded by whether one is
  registered; a call of a registered callback is an element of the list of calls that
  every handler returns. \<open>hotkey_states_record\<close> and \<open>hotkey_states_tts\<close> are the two
  entries of the dictionary \<open>hotkey_states\<close>.
\<close>

datatype callback = OnPress | OnRelease | OnTtsPress

record HotkeyHandler =
  is_listening :: bool
  on_press_callback :: bool
  on_release_callback :: bool
  on_tts_press_callback :: bool
  pressed_keys :: "pystr set"
  hotkey_states_record :: bool
  hotkey_states_tts :: bool
  last_tts_trigger :: real
  tts_debounce_time :: real

definition HotkeyHandler_init :: HotkeyHandler where
  "HotkeyHandler_init =
     \<lparr> is_listening = False, on_press_callback = False, on_release_callback = False,
       on_tts_press_callback = False, pressed_keys = {},
       hotkey_states_record = False, hotkey_states_tts = False,
       last_tts_trigger = 0, tts_debounce_time = 1 / 2 \<rparr>"

text \<open>\<open>start\<close>: \<open>listener_ok\<close> says whether creating and starting the pynput listener
  succeeded (the \<open>except\<close> branch returns \<open>False\<close> with the callbacks already stored).\<close>

definition hotkey_start :: "bool \<Rightarrow> bool \<Rightarrow> bool \<Rightarrow> bool \<Rightarrow> HotkeyHandler \<Rightarrow> bool \<times> HotkeyHandler" where
  "hotkey_start on_press on_release on_tts_press listener_ok h =
     (if is_listening h then (False, h)
      else
        (let h1 = h\<lparr>on_press_callback := on_press, on_release_callback := on_release,
                     on_tts_press_callback := on_tts_press\<rparr>
         in if listener_ok then (True, h1\<lparr>is_listening := True\<rparr>) else (False, h1)))"

definition hotkey_stop :: "HotkeyHandler \<Rightarrow> HotkeyHandler" where
  "hotkey_stop h = h\<lparr>is_listening := False, pressed_keys := {}\<rparr>"

definition is_record_hotkey_pressed :: "Config \<Rightarrow> HotkeyHandler \<Rightarrow> bool" where
  "is_record_hotkey_pressed cfg h = (set (hotkey cfg) \<subseteq> pressed_keys h)"

definition is_tts_hotkey_pressed :: "Config \<Rightarrow> HotkeyHandler \<Rightarrow> bool" where
  "is_tts_hotkey_pressed cfg h = (set (tts_hotkey cfg) \<subseteq> pressed_keys h)"

text \<open>
  \<open>_on_key_press\<close>; \<open>current_time\<close> is what \<open>time.time()\<close> returns in the TTS branch.
  The second test is an \<open>elif\<close>: it is evaluated only when the first one fails.
\<close>

definition on_key_press :: "(pystr \<Rightarrow> pystr) \<Rightarrow> Config \<Rightarrow> real \<Rightarrow> key \<Rightarrow> HotkeyHandler \<Rightarrow> callback list \<times> HotkeyHandler" where
  "on_key_press str_lower cfg current_time k h =
     (case get_key_name str_lower k of
        None \<Rightarrow> ([], h)
      | Some key_name \<Rightarrow>
          if key_name = [] then ([], h)
          else
            (let h1 = h\<lparr>pressed_keys := insert key_name (pressed_keys h)\<rparr> in
             if is_record_hotkey_pressed cfg h1 \<and> \<not> hotkey_states_record h1 then
               (if on_press_callback h1 then [OnPress] else [],
                h1\<lparr>hotkey_states_record := True\<rparr>)
             else if is_tts_hotkey_pressed cfg h1 \<and> \<not> hotkey_states_tts h1 then
               (if current_time - last_tts_trigger h1 > tts_debounce_time h1 then
                  (if on_tts_press_callback h1 then [OnTtsPress] else [],
                   h1\<lparr>hotkey_states_tts := True, last_tts_trigger := current_time\<rparr>)
                else ([], h1))
             else ([], h1)))"

text \<open>\<open>_on_key_release\<close>.\<close>

definition on_key_release :: "(pystr \<Rightarrow> pystr) \<Rightarrow> Config \<Rightarrow> key \<Rightarrow> HotkeyHandler \<Rightarrow> callback list \<times> HotkeyHandler" where
  "on_key_release str_lower cfg k h =
     (case get_key_name str_lower k of
        None \<Rightarrow> ([], h)
      | Some key_name \<Rightarrow>
          if key_name = [] then ([], h)
          else
            (let was_record_pressed = hotkey_states_record h;
                 h1 = h\<lparr>pressed_keys := pressed_keys h - {key_name}\<rparr>;
                 h2 = h1\<lparr>hotkey_states_record := is_record_hotkey_pressed cfg h1\<rparr>;
                 h3 = h2\<lparr>hotkey_states_tts := is_tts_hotkey_pressed cfg h2\<rparr>
             in (if was_record_pressed \<and> \<not> hotkey_states_record h3 \<and> on_release_callback h3
                 then [OnRelease] else [], h3)))"

text \<open>
  The pynput listener delivers the key events one at a time, each to its handler. A press
  carries the clock reading of the handler.
\<close>

datatype key_event = Press real key | Release key

fun handle_event :: "(pystr \<Rightarrow> pystr) \<Rightarrow> Config \<Rightarrow> key_event \<Rightarrow> HotkeyHandler \<Rightarrow> callback list \<times> HotkeyHandler" where
  "handle_event str_lower cfg (Press t k) h = on_key_press str_lower cfg t k h"
| "handle_event str_lower cfg (Release k) h = on_key_release str_lower cfg k h"

fun deliver :: "(pystr \<Rightarrow> pystr) \<Rightarrow> Config \<Rightarrow> key_event list \<Rightarrow> HotkeyHandler \<Rightarrow> HotkeyHandler" where
  "deliver str_lower cfg [] h = h"
| "deliver str_lower cfg (e # es) h =
     deliver str_lower cfg es (snd (handle_event str_lower cfg e h))"

text \<open>An event that releases one of the keys of a chord.\<close>

fun releases :: "(pystr \<Rightarrow> pystr) \<Rightarrow> pystr list \<Rightarrow> key_event \<Rightarrow> bool" where
  "releases str_lower chord (Release k) =
     (case get_key_name str_lower k of None \<Rightarrow> False | Some n \<Rightarrow> n \<in> set chord)"
| "releases str_lower chord (Press t k) = False"

section \<open>Audio capture (audio_recorder.py)\<close>

text \<open>
  A frame is one block of samples handed to the stream callback. The recording thread
  (\<open>_record_audio\<close>) is created by \<open>start_recording\<close>, opens the input stream, polls in
  its loop and leaves the stream when the loop ends; the stream calls \<open>audio_callback\<close>
  only while it is open.
\<close>

type_synonym frame = "real list"

datatype thread = Starting | Streaming | Finished

record AudioRecorder =
  is_recording :: bool
  audio_data :: "frame list"
  start_time :: real
  recording_thread :: "thread option"

definition AudioRecorder_init :: AudioRecorder where
  "AudioRecorder_init =
     \<lparr> is_recording = False, audio_data = [], start_time = 0, recording_thread = None \<rparr>"

text \<open>
  \<open>start_recording\<close>; \<open>now\<close> is the clock reading and \<open>thread_ok\<close> says whether the
  thread could be created and started (otherwise the \<open>except\<close> branch runs).
\<close>

definition start_recording :: "real \<Rightarrow> bool \<Rightarrow> AudioRecorder \<Rightarrow> bool \<times> AudioRecorder" where
  "start_recording now thread_ok r =
     (if is_recording r then (False, r)
      else
        (let r1 = r\<lparr>is_recording := True, audio_data := [], start_time := now\<rparr>
         in if thread_ok then (True, r1\<lparr>recording_thread := Some Starting\<rparr>)
            else (False, r1\<lparr>is_recording := False\<rparr>)))"

text \<open>
  The recording thread enters the \<open>with sd.InputStream(...)\<close> block; when the device
  cannot be opened the \<open>except\<close> branch of \<open>_record_audio\<close> clears \<open>is_recording\<close>.
\<close>

definition open_stream :: "bool \<Rightarrow> AudioRecorder \<Rightarrow> AudioRecorder" where
  "open_stream device_ok r =
     (if recording_thread r = Some Starting then
        (if device_ok then r\<lparr>recording_thread := Some Streaming\<rparr>
         else r\<lparr>is_recording := False, recording_thread := Some Finished\<rparr>)
      else r)"

definition audio_callback :: "frame \<Rightarrow> AudioRecorder \<Rightarrow> AudioRecorder" where
  "audio_callback indata r =
     (if recording_thread r = Some Streaming then
        (if is_recording r then r\<lparr>audio_data := audio_data r @ [indata]\<rparr> else r)
      else r)"

text \<open>
  One pass of the loop \<open>while self.is_recording: sd.sleep(100); if time.time() -
  self.start_time > config.max_recording_duration: break\<close>, where \<open>now\<close> is the clock
  reading after the sleep. Leaving the loop leaves the \<open>with\<close> block, which closes the
  stream and ends the thread; no assignment is made to \<open>is_recording\<close>.
\<close>

definition record_audio_poll :: "Config \<Rightarrow> real \<Rightarrow> AudioRecorder \<Rightarrow> AudioRecorder" where
  "record_audio_poll cfg now r =
     (if recording_thread r = Some Streaming then
        (if is_recording r then
           (if now - start_time r > max_recording_duration cfg
            then r\<lparr>recording_thread := Some Finished\<rparr>
            else r)
         else r\<lparr>recording_thread := Some Finished\<rparr>)
      else r)"

text \<open>
  \<open>stop_recording\<close>. \<open>join(timeout=1.0)\<close> waits for the recording thread, whose loop
  polls the cleared flag every 100 ms: the thread has ended when the join returns. \<open>now\<close>
  is the clock reading taken after the join. \<open>saved\<close> is the outcome of the \<open>try\<close> block
  that writes the WAV file: the name of the temporary file, or \<open>None\<close> when it raised.
\<close>

definition join_thread :: "AudioRecorder \<Rightarrow> AudioRecorder" where
  "join_thread r = r\<lparr>recording_thread := map_option (\<lambda>_. Finished) (recording_thread r)\<rparr>"

definition stop_recording :: "Config \<Rightarrow> real \<Rightarrow> pystr option \<Rightarrow> AudioRecorder \<Rightarrow> pystr option \<times> AudioRecorder" where
  "stop_recording cfg now saved r =
     (if \<not> is_recording r then (None, r)
      else
        (let r1 = join_thread (r\<lparr>is_recording := False\<rparr>);
             recording_duration = now - start_time r1
         in if recording_duration < min_recording_duration cfg then (None, r1)
            else if audio_data r1 = [] then (None, r1)
            else (saved, r1)))"

text \<open>
  A call of \<open>stop_recording\<close> at the clock reading \<open>called\<close>. The function reads the
  clock only after the join, which has waited \<open>join_wait\<close> seconds for the recording
  thread to wake from its sleep of 100 ms and to close the stream (the timeout bounds the
  wait by one second).
\<close>

definition stop_recording_at :: "Config \<Rightarrow> real \<Rightarrow> real \<Rightarrow> pystr option \<Rightarrow> AudioRecorder \<Rightarrow> pystr option \<times> AudioRecorder" where
  "stop_recording_at cfg called join_wait saved r =
     stop_recording cfg (called + join_wait) saved r"

definition is_recording_active :: "AudioRecorder \<Rightarrow> bool" where
  "is_recording_active r = is_recording r"

text \<open>
  What can happen to a recorder between a start and the next \<open>stop_recording\<close>: frames
  arrive, the loop polls, the stream opens, and \<open>start_recording\<close> is tried again.
\<close>

datatype capture_event = Frame frame | Poll real | Open bool | Start real bool

fun capture_step :: "Config \<Rightarrow> capture_event \<Rightarrow> AudioRecorder \<Rightarrow> AudioRecorder" where
  "capture_step cfg (Frame f) r = audio_callback f r"
| "capture_step cfg (Poll t) r = record_audio_poll cfg t r"
| "capture_step cfg (Open ok) r = open_stream ok r"
| "capture_step cfg (Start t ok) r = snd (start_recording t ok r)"

fun capture_run :: "Config \<Rightarrow> capture_event list \<Rightarrow> AudioRecorder \<Rightarrow> AudioRecorder" where
  "capture_run cfg [] r = r"
| "capture_run cfg (e # es) r = capture_run cfg es (capture_step cfg e r)"

section \<open>Model life cycle (transcriber.py)\<close>

text \<open>
  \<open>'m\<close> is the type of loaded Whisper models. \<open>loaded\<close> is the outcome of
  \<open>whisper.load_model\<close>: a model, or \<open>None\<close> when it raised. \<open>t0\<close> and \<open>t1\<close> are the
  clock readings before and after the load.
\<close>

record 'm Transcriber =
  model :: "'m option"
  model_load_time :: real
  last_used :: real

definition Transcriber_init :: "'m Transcriber" where
  "Transcriber_init = \<lparr> model = None, model_load_time = 0, last_used = 0 \<rparr>"

definition ensure_model_loaded :: "'m option \<Rightarrow> real \<Rightarrow> real \<Rightarrow> 'm Transcriber \<Rightarrow> bool \<times> 'm Transcriber" where
  "ensure_model_loaded loaded t0 t1 tr =
     (case model tr of
        None \<Rightarrow>
          (case loaded of
             Some m \<Rightarrow> (True, tr\<lparr>model := Some m, model_load_time := t1 - t0\<rparr>)
           | None \<Rightarrow> (False, tr))
      | Some _ \<Rightarrow> (True, tr))"

text \<open>
  \<open>transcribe\<close>; \<open>now\<close> is the clock reading stored in \<open>last_used\<close> and \<open>recognised\<close> the
  outcome of \<open>self.model.transcribe(audio_file)["text"]\<close>: the text, or \<open>None\<close> when the
  call raised.
\<close>

definition transcribe :: "'m option \<Rightarrow> real \<Rightarrow> real \<Rightarrow> real \<Rightarrow> pystr option \<Rightarrow> 'm Transcriber \<Rightarrow> pystr option \<times> 'm Transcriber" where
  "transcribe loaded t0 t1 now recognised tr =
     (case ensure_model_loaded loaded t0 t1 tr of
        (False, tr1) \<Rightarrow> (None, tr1)
      | (True, tr1) \<Rightarrow>
          (let tr2 = tr1\<lparr>last_used := now\<rparr> in
           case recognised of
             None \<Rightarrow> (None, tr2)
           | Some result \<Rightarrow>
               (let text = strip result in (if text \<noteq> [] then Some text else None, tr2))))"

text \<open>
  One pass of the loop of \<open>_model_unloader\<close>, at clock reading \<open>now\<close> after the sleep of
  30 seconds. The loop itself never ends; \<open>model_unloader\<close> runs it over the clock readings
  of its first passes.
\<close>

definition model_unloader_pass :: "real \<Rightarrow> 'm Transcriber \<Rightarrow> 'm Transcriber" where
  "model_unloader_pass now tr =
     (if model tr \<noteq> None \<and> last_used tr > 0 \<and> now - last_used tr > 300
      then tr\<lparr>model := None, last_used := 0\<rparr>
      else tr)"

fun model_unloader :: "real list \<Rightarrow> 'm Transcriber \<Rightarrow> 'm Transcriber" where
  "model_unloader [] tr = tr"
| "model_unloader (now # nows) tr = model_unloader nows (model_unloader_pass now tr)"

definition is_model_loaded :: "'m Transcriber \<Rightarrow> bool" where
  "is_model_loaded tr = (model tr \<noteq> None)"

section \<open>Speech (text_to_speech.py)\<close>

text \<open>The dictionary \<open>replacements\<close> of \<open>_clean_text\<close>, in its insertion order.\<close>

definition replacements :: "(pystr \<times> pystr) list" where
  "replacements =
     [([38], str ''and''), ([64], str ''at''), ([35], str ''hash''), ([36], str ''dollar''),
      ([37], str ''percent''), ([94], str ''caret''), ([42], str ''asterisk''),
      ([43], str ''plus''), ([61], str ''equals''), ([60], str ''less than''),
      ([62], str ''greater than''), ([124], str ''pipe''), ([92], str ''backslash''),
      ([47], str ''slash''), ([126], str ''tilde''), ([96], str ''backtick''),
      ([169], str ''copyright''), ([174], str ''registered''), ([8482], str ''trademark''),
      ([176], str ''degrees''), ([8364], str ''euro''), ([163], str ''pound''),
      ([165], str ''yen''), ([8377], str ''rupee''), ([8212], str '' ''), ([8211], str '' ''),
      ([8230], str '' dot dot dot ''), ([8594], str ''arrow''), ([8592], str ''left arrow''),
      ([8593], str ''up arrow''), ([8595], str ''down arrow''), ([10003], str ''checkmark''),
      ([10007], str ''x mark''), ([9733], str ''star''), ([9829], str ''heart''),
      ([9830], str ''diamond''), ([9827], str ''club''), ([9824], str ''spade'')]"

definition clean_word :: "pystr \<Rightarrow> pystr" where
  "clean_word word =
     (if contains word [64] \<and> contains word [46]
      then replace (replace word [64] (str '' at '')) [46] (str '' dot '')
      else word)"

definition clean_text :: "pystr \<Rightarrow> pystr" where
  "clean_text text =
     (if text = [] then []
      else
        (let t1 = join (str '' '') (split text);
             t2 = foldl (\<lambda>t (symbol, replacement). replace t symbol replacement) t1 replacements;
             t3 = (if contains (lower t2) (str ''http'')
                   then replace (replace (replace t2 (str ''https://'') []) (str ''http://'') [])
                          (str ''www.'') []
                   else t2);
             t4 = (if contains t3 [64] \<and> contains t3 [46]
                   then join (str '' '') (map clean_word (split t3))
                   else t3);
             t5 = replace (replace (replace (replace t4 [42, 42] []) [42] []) [95, 95] []) [95] [];
             t6 = replace (replace (replace (replace t5 [96, 96, 96] []) [96] []) [35, 35] []) [35] [];
             t7 = join (str '' '') (split t6)
         in strip t7))"

text \<open>
  The state of a \<open>TextToSpeech\<close>. \<open>mixer_busy\<close> is \<open>pygame.mixer.music.get_busy()\<close>,
  \<open>speech_thread_alive\<close> says that \<open>speech_thread\<close> is set and alive, and \<open>spoken\<close> lists
  the arguments of the \<open>_speech_worker\<close> threads started so far: the worker hands its
  argument unchanged to \<open>_generate_speech\<close>, which hands it to \<open>edge_tts.Communicate\<close>.
\<close>

record TextToSpeech =
  is_speaking :: bool
  stop_requested :: bool
  mixer_busy :: bool
  speech_thread_alive :: bool
  spoken :: "pystr list"

definition TextToSpeech_init :: TextToSpeech where
  "TextToSpeech_init =
     \<lparr> is_speaking = False, stop_requested = False, mixer_busy = False,
       speech_thread_alive = False, spoken = [] \<rparr>"

text \<open>The first two assignments of \<open>_speech_worker\<close>, and its outer \<open>finally\<close> block, after
  which the thread ends.\<close>

definition speech_worker_begin :: "TextToSpeech \<Rightarrow> TextToSpeech" where
  "speech_worker_begin s = s\<lparr>is_speaking := True, stop_requested := False\<rparr>"

definition speech_worker_finally :: "TextToSpeech \<Rightarrow> TextToSpeech" where
  "speech_worker_finally s =
     s\<lparr>is_speaking := False, stop_requested := False, speech_thread_alive := False\<rparr>"

text \<open>\<open>_play_audio\<close> starts the playback.\<close>

definition play_audio_begin :: "TextToSpeech \<Rightarrow> TextToSpeech" where
  "play_audio_begin s = s\<lparr>mixer_busy := True\<rparr>"

text \<open>
  \<open>stop_speech\<close>. \<open>joined\<close> says whether the worker ended within the
  \<open>join(timeout=1.0)\<close>; its \<open>finally\<close> block has then run.
\<close>

definition stop_speech :: "bool \<Rightarrow> TextToSpeech \<Rightarrow> TextToSpeech" where
  "stop_speech joined s =
     (if is_speaking s then
        (let s1 = s\<lparr>stop_requested := True\<rparr>;
             s2 = (if mixer_busy s1 then s1\<lparr>mixer_busy := False\<rparr> else s1)
         in if speech_thread_alive s2 \<and> joined then speech_worker_finally s2 else s2)
      else s)"

definition speak_text :: "pystr \<Rightarrow> bool \<Rightarrow> TextToSpeech \<Rightarrow> TextToSpeech" where
  "speak_text text joined s =
     (if text = [] \<or> strip text = [] then s
      else
        (let s1 = stop_speech joined s;
             cleaned_text = clean_text text
         in if cleaned_text = [] then s1
            else
              (let cleaned_text =
                     (if length cleaned_text > 500 then take 497 cleaned_text @ str ''...''
                      else cleaned_text)
               in s1\<lparr>speech_thread_alive := True, spoken := spoken s1 @ [cleaned_text]\<rparr>)))"

text \<open>\<open>speak_selected_text\<close>; \<open>selected_text\<close> is what \<open>get_selected_text()\<close> returned.\<close>

definition speak_selected_text :: "pystr option \<Rightarrow> bool \<Rightarrow> TextToSpeech \<Rightarrow> TextToSpeech" where
  "speak_selected_text selected_text joined s =
     (case selected_text of
        None \<Rightarrow> stop_speech joined s
      | Some txt \<Rightarrow>
          if txt = [] then stop_speech joined s
          else if is_speaking s then stop_speech joined s
          else
            (let cleaned_text = clean_text txt in
             if cleaned_text \<noteq> [] then speak_text cleaned_text joined s else s))"

definition is_busy :: "TextToSpeech \<Rightarrow> bool" where
  "is_busy s = is_speaking s"

section \<open>Orchestration (service.py)\<close>

text \<open>
  The system tray, as far as the service uses it: \<open>set_recording\<close> stores the flag when
  the tray has an icon and runs.
\<close>

record SystemTray =
  tray_running :: bool
  tray_is_recording :: bool

definition set_recording :: "bool \<Rightarrow> SystemTray \<Rightarrow> SystemTray" where
  "set_recording recording t = (if tray_running t then t\<lparr>tray_is_recording := recording\<rparr> else t)"

text \<open>
  The state of a \<open>VoiceTranscriberService\<close>. \<open>notifications\<close> lists the calls of
  \<open>_show_notification\<close> and \<open>processing_threads\<close> the audio files for which a thread
  running \<open>_process_audio\<close> was started.
\<close>

record VoiceTranscriberService =
  audio_recorder :: AudioRecorder
  system_tray :: "SystemTray option"
  is_running :: bool
  is_processing :: bool
  notifications :: "(pystr \<times> pystr) list"
  processing_threads :: "pystr list"

definition VoiceTranscriberService_init :: "Config \<Rightarrow> VoiceTranscriberService" where
  "VoiceTranscriberService_init cfg =
     \<lparr> audio_recorder = AudioRecorder_init,
       system_tray = (if show_system_tray cfg
                      then Some \<lparr> tray_running = False, tray_is_recording = False \<rparr> else None),
       is_running = False, is_processing = False, notifications = [],
       processing_threads = [] \<rparr>"

definition show_notification :: "Config \<Rightarrow> pystr \<Rightarrow> pystr \<Rightarrow> VoiceTranscriberService \<Rightarrow> VoiceTranscriberService" where
  "show_notification cfg title message s =
     (if show_notifications cfg then s\<lparr>notifications := notifications s @ [(title, message)]\<rparr>
      else s)"

text \<open>\<open>_on_hotkey_press\<close>.\<close>

definition on_hotkey_press :: "Config \<Rightarrow> real \<Rightarrow> bool \<Rightarrow> VoiceTranscriberService \<Rightarrow> VoiceTranscriberService" where
  "on_hotkey_press cfg now thread_ok s =
     (if \<not> is_running s \<or> is_processing s then s
      else
        (case start_recording now thread_ok (audio_recorder s) of
           (True, r) \<Rightarrow>
             show_notification cfg (str ''Recording'') (str ''Hold key and speak...'')
               (s\<lparr>audio_recorder := r,
                  system_tray := map_option (set_recording True) (system_tray s)\<rparr>)
         | (False, r) \<Rightarrow> s\<lparr>audio_recorder := r\<rparr>))"

text \<open>\<open>_on_hotkey_release\<close>; a truthy \<open>audio_file\<close> is a name that is not empty.\<close>

definition on_hotkey_release :: "Config \<Rightarrow> real \<Rightarrow> pystr option \<Rightarrow> VoiceTranscriberService \<Rightarrow> VoiceTranscriberService" where
  "on_hotkey_release cfg now saved s =
     (if \<not> is_running s \<or> \<not> is_recording_active (audio_recorder s) then s
      else
        (let s1 = s\<lparr>system_tray := map_option (set_recording False) (system_tray s)\<rparr>;
             (audio_file, r) = stop_recording cfg now saved (audio_recorder s1);
             s2 = s1\<lparr>audio_recorder := r\<rparr>
         in case audio_file of
              None \<Rightarrow> s2
            | Some f \<Rightarrow>
                if f \<noteq> [] then s2\<lparr>processing_threads := processing_threads s2 @ [f]\<rparr> else s2))"

text \<open>The release handler called at the clock reading \<open>called\<close>, with the wait of the
  join inside \<open>stop_recording\<close>.\<close>

definition on_hotkey_release_at :: "Config \<Rightarrow> real \<Rightarrow> real \<Rightarrow> pystr option \<Rightarrow> VoiceTranscriberService \<Rightarrow> VoiceTranscriberService" where
  "on_hotkey_release_at cfg called join_wait saved s =
     on_hotkey_release cfg (called + join_wait) saved s"

text \<open>
  \<open>_process_audio\<close> runs in its own thread: its entry up to the call of the transcriber,
  and the rest once the transcriber has returned \<open>text\<close> and, for a text, the inserter has
  returned \<open>inserted\<close> (both catch their own exceptions). The first component of
  \<open>process_audio_begin\<close> says whether the thread goes on.
\<close>

definition process_audio_begin :: "Config \<Rightarrow> VoiceTranscriberService \<Rightarrow> bool \<times> VoiceTranscriberService" where
  "process_audio_begin cfg s =
     (if is_processing s then (False, s)
      else (True, show_notification cfg (str ''Processing'') (str ''Transcribing audio...'')
                    (s\<lparr>is_processing := True\<rparr>)))"

definition process_audio_end :: "Config \<Rightarrow> pystr option \<Rightarrow> bool \<Rightarrow> VoiceTranscriberService \<Rightarrow> VoiceTranscriberService" where
  "process_audio_end cfg text inserted s =
     (let s1 =
        (case text of
           None \<Rightarrow> show_notification cfg (str ''No Speech'')
                     (str ''No speech detected or transcription failed'') s
         | Some t \<Rightarrow>
             if t = [] then show_notification cfg (str ''No Speech'')
                     (str ''No speech detected or transcription failed'') s
             else if inserted
               then show_notification cfg (str ''Success'') (str ''Typed: '' @ take 50 t @ str ''...'') s
               else show_notification cfg (str ''Error'') (str ''Failed to insert text'') s)
      in s1\<lparr>is_processing := False\<rparr>)"

text \<open>
  \<open>service.start\<close>. \<open>tray_ok\<close> and \<open>listener_ok\<close> are the results of starting the
  system tray and the hotkey handler.
\<close>

definition service_start :: "Config \<Rightarrow> bool \<Rightarrow> bool \<Rightarrow> VoiceTranscriberService \<Rightarrow> bool \<times> VoiceTranscriberService" where
  "service_start cfg tray_ok listener_ok s =
     (if is_running s then (False, s)
      else
        (let s1 = (case system_tray s of
                     None \<Rightarrow> s
                   | Some t \<Rightarrow>
                       if tray_ok then s\<lparr>system_tray := Some (t\<lparr>tray_running := True\<rparr>)\<rparr>
                       else s\<lparr>system_tray := None\<rparr>)
         in if \<not> listener_ok then (False, s1)
            else (True,
                  show_notification cfg (str ''Voice Transcriber Started'')
                    (str ''Press '' @ join (str ''+'') (hotkey cfg) @ str '' to record, '' @
                     join (str ''+'') (tts_hotkey cfg) @ str '' for TTS'')
                    (s1\<lparr>is_running := True\<rparr>))))"

section \<open>Invariants and example states\<close>

text \<open>A chord's flag is set only while all keys of the chord are pressed.\<close>

definition record_inv :: "Config \<Rightarrow> HotkeyHandler \<Rightarrow> bool" where
  "record_inv cfg h = (hotkey_states_record h \<longrightarrow> is_record_hotkey_pressed cfg h)"

definition tts_inv :: "Config \<Rightarrow> HotkeyHandler \<Rightarrow> bool" where
  "tts_inv cfg h = (hotkey_states_tts h \<longrightarrow> is_tts_hotkey_pressed cfg h)"

text \<open>A handler that was started with its three callbacks, and the same handler with
  some keys held. The key names are ASCII, where \<open>lower\<close> is Python's \<open>str.lower\<close>.\<close>

definition started_handler :: HotkeyHandler where
  "started_handler = snd (hotkey_start True True True True HotkeyHandler_init)"

definition ctrl_held :: HotkeyHandler where
  "ctrl_held =
     deliver lower config
       [Press 1 (Key (str ''ctrl_l'')), Press 2 (Key (str ''f2'')), Release (Key (str ''f2''))]
       started_handler"

definition f1_f2_held :: HotkeyHandler where
  "f1_f2_held =
     deliver lower config [Press 1 (Key (str ''f1'')), Press 2 (Key (str ''f2''))] started_handler"

text \<open>
  A running service that recorded from second 0 to second 2 and whose processing
  thread has begun to transcribe.
\<close>

definition recording_service :: VoiceTranscriberService where
  "recording_service =
     (let s0 = snd (service_start config True True (VoiceTranscriberService_init config));
          s1 = on_hotkey_press config 0 True s0
      in s1\<lparr>audio_recorder :=
               capture_run config [Open True, Frame [1 / 10, 2 / 10]] (audio_recorder s1)\<rparr>)"

definition transcribing_service :: VoiceTranscriberService where
  "transcribing_service =
     snd (process_audio_begin config
            (on_hotkey_release config 2 (Some (str ''/tmp/tmp1.wav'')) recording_service))"


text \<open>
  A transcriber whose model was loaded and used at second 1000, and the same transcriber
  after the passes of the unloader at the seconds 1020, 1050, ..., 1290.
\<close>

definition used_transcriber :: "nat Transcriber" where
  "used_transcriber = snd (transcribe (Some 1) 998 1000 1000 (Some (str ''hello'')) Transcriber_init)"

definition idle_transcriber :: "nat Transcriber" where
  "idle_transcriber =
     model_unloader [1020, 1050, 1080, 1110, 1140, 1170, 1200, 1230, 1260, 1290] used_transcriber"

text \<open>A speech engine that plays the text ``Hello''.\<close>

definition speaking_tts :: TextToSpeech where
  "speaking_tts =
     play_audio_begin (speech_worker_begin (speak_text (str ''Hello'') False TextToSpeech_init))"

section \<open>Evaluation of the example states\<close>

lemma key_names:
  "get_key_name lower (Key (str ''ctrl_l'')) = Some (str ''ctrl'')"
  "get_key_name lower (Key (str ''f1'')) = Some (str ''f1'')"
  "get_key_name lower (Key (str ''f2'')) = Some (str ''f2'')"
  by (simp_all add: get_key_name_def lower_def lower_cp_def str_def Let_def)

lemma started_handler_eq:
  "started_handler = \<lparr> is_listening = True, on_press_callback = True, on_release_callback = True,
       on_tts_press_callback = True, pressed_keys = {},
       hotkey_states_record = False, hotkey_states_tts = False,
       last_tts_trigger = 0, tts_debounce_time = 1 / 2 \<rparr>"
  by (simp add: started_handler_def hotkey_start_def HotkeyHandler_init_def)

lemmas handler_eval = started_handler_eq get_key_name_def lower_def lower_cp_def str_def on_key_press_def
  on_key_release_def is_record_hotkey_pressed_def is_tts_hotkey_pressed_def config_def Let_def

lemma ctrl_held_eq:
  "ctrl_held = \<lparr> is_listening = True, on_press_callback = True, on_release_callback = True,
       on_tts_press_callback = True, pressed_keys = {str ''ctrl''},
       hotkey_states_record = False, hotkey_states_tts = False,
       last_tts_trigger = 2, tts_debounce_time = 1 / 2 \<rparr>"
  by (simp add: ctrl_held_def handler_eval)

lemma f1_f2_held_eq:
  "f1_f2_held = \<lparr> is_listening = True, on_press_callback = True, on_release_callback = True,
       on_tts_press_callback = True, pressed_keys = {str ''f2'', str ''f1''},
       hotkey_states_record = False, hotkey_states_tts = False,
       last_tts_trigger = 0, tts_debounce_time = 1 / 2 \<rparr>"
  by (simp add: f1_f2_held_def handler_eval)

section \<open>Chord detection\<close>

lemma press_record_inv: "record_inv cfg h \<Longrightarrow> record_inv cfg (snd (on_key_press lw cfg t k h))"
  by (auto simp: record_inv_def on_key_press_def is_record_hotkey_pressed_def Let_def split: option.splits)

lemma release_record_inv: "record_inv cfg h \<Longrightarrow> record_inv cfg (snd (on_key_release lw cfg k h))"
  by (auto simp: record_inv_def on_key_release_def is_record_hotkey_pressed_def is_tts_hotkey_pressed_def Let_def split: option.splits)

lemma press_tts_inv: "tts_inv cfg h \<Longrightarrow> tts_inv cfg (snd (on_key_press lw cfg t k h))"
  by (auto simp: tts_inv_def on_key_press_def is_tts_hotkey_pressed_def is_record_hotkey_pressed_def Let_def split: option.splits)

lemma release_tts_inv: "tts_inv cfg h \<Longrightarrow> tts_inv cfg (snd (on_key_release lw cfg k h))"
  by (auto simp: tts_inv_def on_key_release_def is_record_hotkey_pressed_def is_tts_hotkey_pressed_def Let_def split: option.splits)

lemma handle_record_inv: "record_inv cfg h \<Longrightarrow> record_inv cfg (snd (handle_event lw cfg e h))"
  by (cases e) (simp_all add: press_record_inv release_record_inv)

lemma handle_tts_inv: "tts_inv cfg h \<Longrightarrow> tts_inv cfg (snd (handle_event lw cfg e h))"
  by (cases e) (simp_all add: press_tts_inv release_tts_inv)

lemma deliver_record_inv: "record_inv cfg h \<Longrightarrow> record_inv cfg (deliver lw cfg es h)"
  by (induction es arbitrary: h) (simp_all add: handle_record_inv)

lemma deliver_tts_inv: "tts_inv cfg h \<Longrightarrow> tts_inv cfg (deliver lw cfg es h)"
  by (induction es arbitrary: h) (simp_all add: handle_tts_inv)

lemma deliver_append: "deliver lw cfg (es @ fs) h = deliver lw cfg fs (deliver lw cfg es h)"
  by (induction es arbitrary: h) simp_all

lemma fire_record:
  "OnPress \<in> set (fst (handle_event lw cfg e h)) \<Longrightarrow>
     \<not> hotkey_states_record h \<and> hotkey_states_record (snd (handle_event lw cfg e h))"
  by (cases e) (auto simp: on_key_press_def on_key_release_def Let_def split: option.splits if_splits)

lemma fire_tts:
  "OnTtsPress \<in> set (fst (handle_event lw cfg e h)) \<Longrightarrow>
     \<not> hotkey_states_tts h \<and> hotkey_states_tts (snd (handle_event lw cfg e h))"
  by (cases e) (auto simp: on_key_press_def on_key_release_def Let_def split: option.splits if_splits)

lemma keep_record:
  "record_inv cfg h \<Longrightarrow> hotkey_states_record h \<Longrightarrow> \<not> releases lw (hotkey cfg) e \<Longrightarrow>
     hotkey_states_record (snd (handle_event lw cfg e h))"
  by (cases e) (auto simp: record_inv_def on_key_press_def on_key_release_def is_record_hotkey_pressed_def
        is_tts_hotkey_pressed_def Let_def split: option.splits if_splits)

lemma keep_tts:
  "tts_inv cfg h \<Longrightarrow> hotkey_states_tts h \<Longrightarrow> \<not> releases lw (tts_hotkey cfg) e \<Longrightarrow>
     hotkey_states_tts (snd (handle_event lw cfg e h))"
  by (cases e) (auto simp: tts_inv_def on_key_press_def on_key_release_def is_record_hotkey_pressed_def
        is_tts_hotkey_pressed_def Let_def split: option.splits if_splits)

lemma hold_record:
  "record_inv cfg h \<Longrightarrow> hotkey_states_record h \<Longrightarrow> \<forall>e \<in> set es. \<not> releases lw (hotkey cfg) e \<Longrightarrow>
     hotkey_states_record (deliver lw cfg es h)"
proof (induction es arbitrary: h)
  case Nil
  then show ?case by simp
next
  case (Cons e es)
  have "record_inv cfg (snd (handle_event lw cfg e h))"
    using Cons.prems(1) by (rule handle_record_inv)
  moreover have "hotkey_states_record (snd (handle_event lw cfg e h))"
    using Cons.prems by (simp add: keep_record)
  ultimately show ?case using Cons.IH Cons.prems(3) by simp
qed

lemma hold_tts:
  "tts_inv cfg h \<Longrightarrow> hotkey_states_tts h \<Longrightarrow> \<forall>e \<in> set es. \<not> releases lw (tts_hotkey cfg) e \<Longrightarrow>
     hotkey_states_tts (deliver lw cfg es h)"
proof (induction es arbitrary: h)
  case Nil
  then show ?case by simp
next
  case (Cons e es)
  have "tts_inv cfg (snd (handle_event lw cfg e h))"
    using Cons.prems(1) by (rule handle_tts_inv)
  moreover have "hotkey_states_tts (snd (handle_event lw cfg e h))"
    using Cons.prems by (simp add: keep_tts)
  ultimately show ?case using Cons.IH Cons.prems(3) by simp
qed

text \<open>
  C5. From a state in which each chord's flag is set only while its keys are pressed
  (the new handler is one), whenever the same chord fires its activation callback at two
  key events, one of the events in between releases a key of that chord; the flag is clear
  before each activation and set after it. This holds for the record chord (\<open>OnPress\<close>)
  and for the speak chord (\<open>OnTtsPress\<close>), whatever function lower-cases the key names.
\<close>

theorem chord_fires_once_per_hold:
  assumes inv: "record_inv cfg h0" "tts_inv cfg h0"
  shows "(OnPress \<in> set (fst (handle_event lw cfg e1 (deliver lw cfg es1 h0))) \<and>
          OnPress \<in> set (fst (handle_event lw cfg e2 (deliver lw cfg (es1 @ e1 # es2) h0)))
            \<longrightarrow> (\<exists>e \<in> set es2. releases lw (hotkey cfg) e) \<and>
                hotkey_states_record (deliver lw cfg (es1 @ [e1]) h0) \<and>
                \<not> hotkey_states_record (deliver lw cfg (es1 @ e1 # es2) h0)) \<and>
         (OnTtsPress \<in> set (fst (handle_event lw cfg e1 (deliver lw cfg es1 h0))) \<and>
          OnTtsPress \<in> set (fst (handle_event lw cfg e2 (deliver lw cfg (es1 @ e1 # es2) h0)))
            \<longrightarrow> (\<exists>e \<in> set es2. releases lw (tts_hotkey cfg) e) \<and>
                hotkey_states_tts (deliver lw cfg (es1 @ [e1]) h0) \<and>
                \<not> hotkey_states_tts (deliver lw cfg (es1 @ e1 # es2) h0))"
proof -
  let ?h1 = "deliver lw cfg es1 h0"
  let ?h2 = "snd (handle_event lw cfg e1 ?h1)"
  have st: "deliver lw cfg (es1 @ e1 # es2) h0 = deliver lw cfg es2 ?h2"
    by (simp add: deliver_append)
  have st1: "deliver lw cfg (es1 @ [e1]) h0 = ?h2"
    by (simp add: deliver_append)
  have rec: "\<exists>e \<in> set es2. releases lw (hotkey cfg) e"
    if a: "OnPress \<in> set (fst (handle_event lw cfg e1 ?h1))"
      and b: "OnPress \<in> set (fst (handle_event lw cfg e2 (deliver lw cfg es2 ?h2)))"
  proof (rule ccontr)
    assume "\<not> (\<exists>e \<in> set es2. releases lw (hotkey cfg) e)"
    then have no: "\<forall>e \<in> set es2. \<not> releases lw (hotkey cfg) e" by simp
    have "record_inv cfg ?h2"
      by (rule handle_record_inv) (rule deliver_record_inv [OF inv(1)])
    moreover have "hotkey_states_record ?h2" using a fire_record by blast
    ultimately have "hotkey_states_record (deliver lw cfg es2 ?h2)" using no by (rule hold_record)
    moreover have "\<not> hotkey_states_record (deliver lw cfg es2 ?h2)"
      using b fire_record by blast
    ultimately show False by simp
  qed
  have tts: "\<exists>e \<in> set es2. releases lw (tts_hotkey cfg) e"
    if a: "OnTtsPress \<in> set (fst (handle_event lw cfg e1 ?h1))"
      and b: "OnTtsPress \<in> set (fst (handle_event lw cfg e2 (deliver lw cfg es2 ?h2)))"
  proof (rule ccontr)
    assume "\<not> (\<exists>e \<in> set es2. releases lw (tts_hotkey cfg) e)"
    then have no: "\<forall>e \<in> set es2. \<not> releases lw (tts_hotkey cfg) e" by simp
    have "tts_inv cfg ?h2"
      by (rule handle_tts_inv) (rule deliver_tts_inv [OF inv(2)])
    moreover have "hotkey_states_tts ?h2" using a fire_tts by blast
    ultimately have "hotkey_states_tts (deliver lw cfg es2 ?h2)" using no by (rule hold_tts)
    moreover have "\<not> hotkey_states_tts (deliver lw cfg es2 ?h2)"
      using b fire_tts by blast
    ultimately show False by simp
  qed
  show ?thesis
    unfolding st st1 using rec tts fire_record fire_tts by blast
qed

theorem chord_fires_once_per_hold_witness:
  "record_inv config started_handler \<and> tts_inv config started_handler \<and>
   OnPress \<in> set (fst (handle_event lower config (Press 2 (Key (str ''f1'')))
      (deliver lower config [Press 1 (Key (str ''ctrl_l''))] started_handler))) \<and>
   OnPress \<in> set (fst (handle_event lower config (Press 4 (Key (str ''f1'')))
      (deliver lower config ([Press 1 (Key (str ''ctrl_l''))] @ Press 2 (Key (str ''f1'')) #
                       [Press 3 (Key (str ''f1'')), Release (Key (str ''f1''))]) started_handler))) \<and>
   (\<exists>e \<in> set [Press 3 (Key (str ''f1'')), Release (Key (str ''f1''))]. releases lower (hotkey config) e) \<and>
   OnTtsPress \<in> set (fst (handle_event lower config (Press 2 (Key (str ''f2'')))
      (deliver lower config [Press 1 (Key (str ''ctrl_l''))] started_handler))) \<and>
   OnTtsPress \<in> set (fst (handle_event lower config (Press 4 (Key (str ''f2'')))
      (deliver lower config ([Press 1 (Key (str ''ctrl_l''))] @ Press 2 (Key (str ''f2'')) #
                       [Press 3 (Key (str ''f2'')), Release (Key (str ''f2''))]) started_handler))) \<and>
   (\<exists>e \<in> set [Press 3 (Key (str ''f2'')), Release (Key (str ''f2''))]. releases lower (tts_hotkey config) e)"
proof -
  have i1: "record_inv config started_handler" by (simp add: record_inv_def started_handler_eq)
  have i2: "tts_inv config started_handler" by (simp add: tts_inv_def started_handler_eq)
  have a: "OnPress \<in> set (fst (handle_event lower config (Press 2 (Key (str ''f1'')))
      (deliver lower config [Press 1 (Key (str ''ctrl_l''))] started_handler)))"
    by (simp add: handler_eval)
  have b: "OnPress \<in> set (fst (handle_event lower config (Press 4 (Key (str ''f1'')))
      (deliver lower config ([Press 1 (Key (str ''ctrl_l''))] @ Press 2 (Key (str ''f1'')) #
                       [Press 3 (Key (str ''f1'')), Release (Key (str ''f1''))]) started_handler)))"
    by (simp add: handler_eval)
  have c: "OnTtsPress \<in> set (fst (handle_event lower config (Press 2 (Key (str ''f2'')))
      (deliver lower config [Press 1 (Key (str ''ctrl_l''))] started_handler)))"
    by (simp add: handler_eval)
  have d: "OnTtsPress \<in> set (fst (handle_event lower config (Press 4 (Key (str ''f2'')))
      (deliver lower config ([Press 1 (Key (str ''ctrl_l''))] @ Press 2 (Key (str ''f2'')) #
                       [Press 3 (Key (str ''f2'')), Release (Key (str ''f2''))]) started_handler)))"
    by (simp add: handler_eval)
  from chord_fires_once_per_hold [OF i1 i2, of lower "Press 2 (Key (str ''f1''))" "[Press 1 (Key (str ''ctrl_l''))]"
      "Press 4 (Key (str ''f1''))" "[Press 3 (Key (str ''f1'')), Release (Key (str ''f1''))]"] a b
  have r1: "\<exists>e \<in> set [Press 3 (Key (str ''f1'')), Release (Key (str ''f1''))]. releases lower (hotkey config) e"
    by blast
  from chord_fires_once_per_hold [OF i1 i2, of lower "Press 2 (Key (str ''f2''))" "[Press 1 (Key (str ''ctrl_l''))]"
      "Press 4 (Key (str ''f2''))" "[Press 3 (Key (str ''f2'')), Release (Key (str ''f2''))]"] c d
  have r2: "\<exists>e \<in> set [Press 3 (Key (str ''f2'')), Release (Key (str ''f2''))]. releases lower (tts_hotkey config) e"
    by blast
  from i1 i2 a b c d r1 r2 show ?thesis by blast
qed

text \<open>
  C6. The debounce time of a new handler is 0.5 s. A key press at a time less than the
  debounce time after the last speak trigger fires no speak callback and leaves the
  trigger time and the speak flag as they were; a key press that completes the record
  chord while its flag is clear fires the record callback whatever the time is.
\<close>

theorem tts_debounce_only:
  "tts_debounce_time HotkeyHandler_init = 1 / 2 \<and>
   (current_time - last_tts_trigger h < tts_debounce_time h \<longrightarrow>
      OnTtsPress \<notin> set (fst (on_key_press lw cfg current_time k h)) \<and>
      last_tts_trigger (snd (on_key_press lw cfg current_time k h)) = last_tts_trigger h \<and>
      hotkey_states_tts (snd (on_key_press lw cfg current_time k h)) = hotkey_states_tts h) \<and>
   (get_key_name lw k = Some n \<and> n \<noteq> [] \<and> set (hotkey cfg) \<subseteq> insert n (pressed_keys h) \<and>
    \<not> hotkey_states_record h \<longrightarrow>
      fst (on_key_press lw cfg current_time k h) = (if on_press_callback h then [OnPress] else []) \<and>
      hotkey_states_record (snd (on_key_press lw cfg current_time k h)) \<and>
      last_tts_trigger (snd (on_key_press lw cfg current_time k h)) = last_tts_trigger h)"
  by (auto simp: HotkeyHandler_init_def on_key_press_def is_record_hotkey_pressed_def
      is_tts_hotkey_pressed_def Let_def split: option.splits)

theorem tts_debounce_only_witness:
  "is_tts_hotkey_pressed config (ctrl_held\<lparr>pressed_keys := insert (str ''f2'') (pressed_keys ctrl_held)\<rparr>) \<and>
   \<not> hotkey_states_tts ctrl_held \<and>
   (23 / 10 :: real) - last_tts_trigger ctrl_held < tts_debounce_time ctrl_held \<and>
   on_key_press lower config (23 / 10) (Key (str ''f2'')) ctrl_held
      = ([], ctrl_held\<lparr>pressed_keys := insert (str ''f2'') (pressed_keys ctrl_held)\<rparr>) \<and>
   get_key_name lower (Key (str ''f1'')) = Some (str ''f1'') \<and> str ''f1'' \<noteq> [] \<and>
   set (hotkey config) \<subseteq> insert (str ''f1'') (pressed_keys ctrl_held) \<and>
   \<not> hotkey_states_record ctrl_held \<and>
   fst (on_key_press lower config (23 / 10) (Key (str ''f1'')) ctrl_held) = [OnPress] \<and>
   hotkey_states_record (snd (on_key_press lower config (23 / 10) (Key (str ''f1'')) ctrl_held))"
  using tts_debounce_only [of "23 / 10" ctrl_held lower config "Key (str ''f2'')" "str ''f1''"]
        tts_debounce_only [of "23 / 10" ctrl_held lower config "Key (str ''f1'')" "str ''f1''"]
  by (simp add: ctrl_held_eq handler_eval)

text \<open>
  C7, as stated, fails: with f1 and f2 held and both flags clear, the press of ctrl
  completes both chords; only the record callback fires and the speak flag stays clear,
  although a speak callback is registered and the debounce time has passed.
\<close>

theorem both_chords_counterexample:
  "\<not> hotkey_states_record f1_f2_held \<and> \<not> hotkey_states_tts f1_f2_held \<and>
   \<not> is_record_hotkey_pressed config f1_f2_held \<and> \<not> is_tts_hotkey_pressed config f1_f2_held \<and>
   on_tts_press_callback f1_f2_held \<and>
   100 - last_tts_trigger f1_f2_held > tts_debounce_time f1_f2_held \<and>
   is_record_hotkey_pressed config (snd (on_key_press lower config 100 (Key (str ''ctrl_l'')) f1_f2_held)) \<and>
   is_tts_hotkey_pressed config (snd (on_key_press lower config 100 (Key (str ''ctrl_l'')) f1_f2_held)) \<and>
   fst (on_key_press lower config 100 (Key (str ''ctrl_l'')) f1_f2_held) = [OnPress] \<and>
   OnTtsPress \<notin> set (fst (on_key_press lower config 100 (Key (str ''ctrl_l'')) f1_f2_held)) \<and>
   \<not> hotkey_states_tts (snd (on_key_press lower config 100 (Key (str ''ctrl_l'')) f1_f2_held))"
  by (simp add: f1_f2_held_eq handler_eval)

text \<open>
  C7, amended. When one key press completes both chords and both flags are clear, the
  handler takes the record branch only: the record callback fires (when one is
  registered), the record flag is set, and the speak flag and the speak trigger time are
  unchanged.
\<close>

theorem both_chords_record_only:
  assumes "get_key_name lw k = Some n" "n \<noteq> []"
    and "set (hotkey cfg) \<subseteq> insert n (pressed_keys h)"
    and "set (tts_hotkey cfg) \<subseteq> insert n (pressed_keys h)"
    and "\<not> hotkey_states_record h" "\<not> hotkey_states_tts h"
  shows "on_key_press lw cfg t k h =
           (if on_press_callback h then [OnPress] else [],
            h\<lparr>pressed_keys := insert n (pressed_keys h), hotkey_states_record := True\<rparr>)"
  using assms by (simp add: on_key_press_def is_record_hotkey_pressed_def Let_def)

theorem both_chords_record_only_witness:
  "get_key_name lower (Key (str ''ctrl_l'')) = Some (str ''ctrl'') \<and> str ''ctrl'' \<noteq> [] \<and>
   set (hotkey config) \<subseteq> insert (str ''ctrl'') (pressed_keys f1_f2_held) \<and>
   set (tts_hotkey config) \<subseteq> insert (str ''ctrl'') (pressed_keys f1_f2_held) \<and>
   \<not> hotkey_states_record f1_f2_held \<and> \<not> hotkey_states_tts f1_f2_held \<and>
   on_key_press lower config 100 (Key (str ''ctrl_l'')) f1_f2_held =
     ([OnPress], f1_f2_held\<lparr>pressed_keys := insert (str ''ctrl'') (pressed_keys f1_f2_held),
                             hotkey_states_record := True\<rparr>)"
proof -
  have a: "get_key_name lower (Key (str ''ctrl_l'')) = Some (str ''ctrl'')" by (simp add: key_names)
  have b: "str ''ctrl'' \<noteq> []" by (simp add: str_def)
  have c: "set (hotkey config) \<subseteq> insert (str ''ctrl'') (pressed_keys f1_f2_held)"
    by (simp add: f1_f2_held_eq config_def)
  have d: "set (tts_hotkey config) \<subseteq> insert (str ''ctrl'') (pressed_keys f1_f2_held)"
    by (simp add: f1_f2_held_eq config_def)
  have e: "\<not> hotkey_states_record f1_f2_held" by (simp add: f1_f2_held_eq)
  have f: "\<not> hotkey_states_tts f1_f2_held" by (simp add: f1_f2_held_eq)
  have g: "on_press_callback f1_f2_held" by (simp add: f1_f2_held_eq)
  from both_chords_record_only [OF a b c d e f, of 100] a b c d e f g show ?thesis by simp
qed

section \<open>Orchestration and capture\<close>

lemmas recorder_eval = AudioRecorder_init_def start_recording_def open_stream_def
  audio_callback_def record_audio_poll_def stop_recording_def join_thread_def
  is_recording_active_def Let_def

lemmas service_eval = VoiceTranscriberService_init_def service_start_def show_notification_def
  on_hotkey_press_def on_hotkey_release_def process_audio_begin_def set_recording_def config_def

lemma recording_service_facts:
  "is_running recording_service" "\<not> is_processing recording_service"
  "is_recording (audio_recorder recording_service)"
  "start_time (audio_recorder recording_service) = 0"
  "audio_data (audio_recorder recording_service) = [[1 / 10, 2 / 10]]"
  "processing_threads recording_service = []"
  by (simp_all add: recording_service_def service_eval recorder_eval)

lemma transcribing_service_facts:
  "is_running transcribing_service" "is_processing transcribing_service"
  "\<not> is_recording (audio_recorder transcribing_service)"
  "processing_threads transcribing_service = [str ''/tmp/tmp1.wav'']"
  using recording_service_facts
  by (simp_all add: transcribing_service_def on_hotkey_release_def process_audio_begin_def
      show_notification_def stop_recording_def join_thread_def is_recording_active_def
      config_def Let_def str_def)

text \<open>
  C1, as stated, fails: the service runs, a transcription is being processed and the
  recorder is idle; the press handler returns the state as it is and no capture starts.
\<close>

theorem press_while_processing_counterexample:
  "is_running transcribing_service \<and> is_processing transcribing_service \<and>
   \<not> is_recording_active (audio_recorder transcribing_service) \<and>
   on_hotkey_press config 3 True transcribing_service = transcribing_service \<and>
   \<not> is_recording_active (audio_recorder (on_hotkey_press config 3 True transcribing_service))"
  using transcribing_service_facts by (simp add: on_hotkey_press_def is_recording_active_def)

text \<open>
  C1, amended. \<open>is_processing\<close> is a gate: while it is set, the press handler changes
  nothing (no capture starts) and a further processing thread stops at its entry. When the
  service runs, nothing is being processed, the recorder is idle and its thread can be
  started, the press handler starts a new capture at the current time.
\<close>

theorem press_gated_by_processing:
  "(is_processing s \<longrightarrow>
      on_hotkey_press cfg now thread_ok s = s \<and> process_audio_begin cfg s = (False, s)) \<and>
   (is_running s \<and> \<not> is_processing s \<and> \<not> is_recording (audio_recorder s) \<longrightarrow>
      is_recording (audio_recorder (on_hotkey_press cfg now True s)) \<and>
      start_time (audio_recorder (on_hotkey_press cfg now True s)) = now \<and>
      audio_data (audio_recorder (on_hotkey_press cfg now True s)) = [])"
  by (simp add: on_hotkey_press_def process_audio_begin_def start_recording_def
      show_notification_def Let_def)

theorem press_gated_by_processing_witness:
  "is_processing transcribing_service \<and>
   on_hotkey_press config 3 True transcribing_service = transcribing_service \<and>
   process_audio_begin config transcribing_service = (False, transcribing_service) \<and>
   is_running (process_audio_end config None False transcribing_service) \<and>
   \<not> is_processing (process_audio_end config None False transcribing_service) \<and>
   \<not> is_recording (audio_recorder (process_audio_end config None False transcribing_service)) \<and>
   is_recording (audio_recorder (on_hotkey_press config 3 True
                   (process_audio_end config None False transcribing_service))) \<and>
   start_time (audio_recorder (on_hotkey_press config 3 True
                   (process_audio_end config None False transcribing_service))) = 3"
  using press_gated_by_processing [of transcribing_service config 3 True]
        press_gated_by_processing [of "process_audio_end config None False transcribing_service" config 3 True]
        transcribing_service_facts
  by (simp add: process_audio_end_def show_notification_def)

text \<open>
  C3, as stated, fails: the recording started at second 0 and holds a frame;
  \<open>stop_recording\<close> is called at 0.45 s, before the minimum of 0.5 s has elapsed, and
  the join takes 0.1 s. The duration measured is 0.55 s: \<open>stop_recording\<close> returns the
  file and the release handler starts a processing thread.
\<close>

theorem short_capture_counterexample:
  "45 / 100 - start_time (audio_recorder recording_service) < min_recording_duration config \<and>
   (0::real) \<le> 1 / 10 \<and> (1 / 10 :: real) \<le> 1 \<and>
   is_running recording_service \<and> is_recording_active (audio_recorder recording_service) \<and>
   fst (stop_recording_at config (45 / 100) (1 / 10) (Some (str ''/tmp/tmp1.wav''))
          (audio_recorder recording_service)) = Some (str ''/tmp/tmp1.wav'') \<and>
   processing_threads (on_hotkey_release_at config (45 / 100) (1 / 10)
          (Some (str ''/tmp/tmp1.wav'')) recording_service) = [str ''/tmp/tmp1.wav'']"
  using recording_service_facts
  by (simp add: stop_recording_at_def on_hotkey_release_at_def on_hotkey_release_def
      stop_recording_def join_thread_def is_recording_active_def config_def Let_def str_def)

text \<open>
  C3, amended. The elapsed time that counts is the one \<open>stop_recording\<close> measures: the
  clock read after the join, that is the time of the call plus the wait for the recording
  thread, less the start time. When it is below the minimum, or no frame was captured,
  \<open>stop_recording\<close> returns \<open>None\<close>, leaves the recorder not recording, and the release
  handler starts no processing thread.
\<close>

theorem short_or_empty_capture_discarded:
  assumes "called + join_wait - start_time (audio_recorder s) < min_recording_duration cfg \<or>
           audio_data (audio_recorder s) = []"
  shows "fst (stop_recording_at cfg called join_wait saved (audio_recorder s)) = None \<and>
         \<not> is_recording (snd (stop_recording_at cfg called join_wait saved (audio_recorder s))) \<and>
         processing_threads (on_hotkey_release_at cfg called join_wait saved s)
           = processing_threads s"
  using assms
  by (auto simp: stop_recording_at_def on_hotkey_release_at_def stop_recording_def
      on_hotkey_release_def join_thread_def is_recording_active_def Let_def
      split: prod.splits option.splits)

theorem short_or_empty_capture_discarded_witness:
  "(2 / 10 :: real) + 1 / 10 - start_time (audio_recorder recording_service)
     < min_recording_duration config \<and>
   is_running recording_service \<and> is_recording_active (audio_recorder recording_service) \<and>
   audio_data (audio_recorder recording_service) \<noteq> [] \<and>
   fst (stop_recording_at config (2 / 10) (1 / 10) (Some (str ''/tmp/tmp1.wav''))
          (audio_recorder recording_service)) = None \<and>
   processing_threads (on_hotkey_release_at config (2 / 10) (1 / 10)
          (Some (str ''/tmp/tmp1.wav'')) recording_service) = [] \<and>
   audio_data (audio_recorder (recording_service\<lparr>audio_recorder :=
          (audio_recorder recording_service)\<lparr>audio_data := []\<rparr>\<rparr>)) = [] \<and>
   processing_threads (on_hotkey_release_at config 2 (1 / 10) (Some (str ''/tmp/tmp1.wav''))
          (recording_service\<lparr>audio_recorder :=
             (audio_recorder recording_service)\<lparr>audio_data := []\<rparr>\<rparr>)) = [] \<and>
   processing_threads (on_hotkey_release_at config 2 (1 / 10) (Some (str ''/tmp/tmp1.wav''))
          recording_service) = [str ''/tmp/tmp1.wav'']"
proof -
  let ?silent = "recording_service\<lparr>audio_recorder :=
                   (audio_recorder recording_service)\<lparr>audio_data := []\<rparr>\<rparr>"
  have h: "(2 / 10 :: real) + 1 / 10 - start_time (audio_recorder recording_service)
             < min_recording_duration config \<or>
           audio_data (audio_recorder recording_service) = []"
    by (simp add: recording_service_facts config_def)
  have k: "2 + 1 / 10 - start_time (audio_recorder ?silent) < min_recording_duration config \<or>
           audio_data (audio_recorder ?silent) = []"
    by simp
  have long: "processing_threads (on_hotkey_release_at config 2 (1 / 10)
                (Some (str ''/tmp/tmp1.wav'')) recording_service) = [str ''/tmp/tmp1.wav'']"
    using recording_service_facts
    by (simp add: on_hotkey_release_at_def on_hotkey_release_def stop_recording_def
        join_thread_def is_recording_active_def config_def Let_def str_def)
  from short_or_empty_capture_discarded [OF h, of "Some (str ''/tmp/tmp1.wav'')"]
       short_or_empty_capture_discarded [OF k, of "Some (str ''/tmp/tmp1.wav'')"] long
  show ?thesis
    by (simp add: recording_service_facts config_def is_recording_active_def)
qed







section \<open>Model life cycle\<close>

lemmas transcriber_eval = Transcriber_init_def ensure_model_loaded_def transcribe_def
  model_unloader_pass_def is_model_loaded_def

text \<open>
  C8. When the model is absent and its construction fails, \<open>_ensure_model_loaded\<close>
  returns \<open>False\<close> and \<open>transcribe\<close> returns \<open>None\<close>, both leaving the transcriber as
  it was, with the model absent. The next call constructs again: with a construction that
  succeeds it returns \<open>True\<close> and the model is loaded.
\<close>

theorem load_failure_not_cached:
  assumes "model tr = None"
  shows "ensure_model_loaded None t0 t1 tr = (False, tr) \<and>
         transcribe None t0 t1 now recognised tr = (None, tr) \<and>
         \<not> is_model_loaded (snd (ensure_model_loaded None t0 t1 tr)) \<and>
         ensure_model_loaded (Some m) t2 t3 (snd (ensure_model_loaded None t0 t1 tr))
           = (True, tr\<lparr>model := Some m, model_load_time := t3 - t2\<rparr>) \<and>
         is_model_loaded
           (snd (ensure_model_loaded (Some m) t2 t3 (snd (ensure_model_loaded None t0 t1 tr))))"
  using assms by (simp add: transcriber_eval)

theorem load_failure_not_cached_witness:
  "model (Transcriber_init :: nat Transcriber) = None \<and>
   ensure_model_loaded None 1 2 (Transcriber_init :: nat Transcriber) = (False, Transcriber_init) \<and>
   transcribe None 1 2 2 (Some (str ''hello'')) (Transcriber_init :: nat Transcriber)
     = (None, Transcriber_init) \<and>
   fst (ensure_model_loaded (Some (1::nat)) 3 5 (snd (ensure_model_loaded None 1 2 Transcriber_init))) \<and>
   model (snd (ensure_model_loaded (Some (1::nat)) 3 5 (snd (ensure_model_loaded None 1 2 Transcriber_init))))
     = Some 1"
proof -
  have h: "model (Transcriber_init :: nat Transcriber) = None" by (simp add: Transcriber_init_def)
  from load_failure_not_cached [OF h, of 1 2 2 "Some (str ''hello'')" 1 3 5] h
  show ?thesis by (simp add: ensure_model_loaded_def Transcriber_init_def)
qed

lemma used_transcriber_eq:
  "used_transcriber = \<lparr> model = Some 1, model_load_time = 2, last_used = 1000 \<rparr>"
  by (simp add: used_transcriber_def transcriber_eval Let_def)

lemma idle_transcriber_eq: "idle_transcriber = used_transcriber"
  by (simp add: idle_transcriber_def used_transcriber_eq model_unloader_pass_def)

text \<open>
  C9, as stated, fails: the model was last used at second 1000 and the unloader has made
  its passes up to second 1290. At second 1301 the idle threshold of 300 s has elapsed
  with no use, and the status query still reports the model as loaded; it does so until
  the pass at second 1320.
\<close>

theorem idle_status_counterexample:
  "last_used idle_transcriber = 1000 \<and> 1301 - last_used idle_transcriber > 300 \<and>
   is_model_loaded idle_transcriber \<and>
   \<not> is_model_loaded (model_unloader_pass 1320 idle_transcriber)"
  by (simp add: idle_transcriber_eq used_transcriber_eq model_unloader_pass_def is_model_loaded_def)

text \<open>
  C9, amended. After a pass of the unloader that finds the loaded model unused for more
  than 300 s (with a positive \<open>last_used\<close>, as every use leaves it), the status query
  reports the model as unloaded, and the next \<open>_ensure_model_loaded\<close> constructs the
  model again and returns \<open>True\<close> when the construction succeeds. A pass that finds at
  most 300 s elapsed leaves the model loaded.
\<close>

theorem idle_unload_after_pass:
  assumes "model tr \<noteq> None" "last_used tr > 0"
  shows "(now - last_used tr > 300 \<longrightarrow>
            \<not> is_model_loaded (model_unloader_pass now tr) \<and>
            ensure_model_loaded (Some m) t0 t1 (model_unloader_pass now tr)
              = (True, tr\<lparr>model := Some m, model_load_time := t1 - t0, last_used := 0\<rparr>) \<and>
            is_model_loaded (snd (ensure_model_loaded (Some m) t0 t1 (model_unloader_pass now tr)))) \<and>
         (now - last_used tr \<le> 300 \<longrightarrow> model_unloader_pass now tr = tr \<and> is_model_loaded tr)"
  using assms by (auto simp: transcriber_eval)

theorem idle_unload_after_pass_witness:
  "model idle_transcriber \<noteq> None \<and> last_used idle_transcriber > 0 \<and>
   1320 - last_used idle_transcriber > 300 \<and> 1290 - last_used idle_transcriber \<le> 300 \<and>
   \<not> is_model_loaded (model_unloader_pass 1320 idle_transcriber) \<and>
   fst (ensure_model_loaded (Some 2) 1400 1403 (model_unloader_pass 1320 idle_transcriber)) \<and>
   is_model_loaded (snd (ensure_model_loaded (Some 2) 1400 1403 (model_unloader_pass 1320 idle_transcriber))) \<and>
   model_unloader_pass 1290 idle_transcriber = idle_transcriber"
proof -
  have a: "model idle_transcriber \<noteq> None" by (simp add: idle_transcriber_eq used_transcriber_eq)
  have b: "last_used idle_transcriber > 0" by (simp add: idle_transcriber_eq used_transcriber_eq)
  have c: "1320 - last_used idle_transcriber > 300" by (simp add: idle_transcriber_eq used_transcriber_eq)
  have d: "1290 - last_used idle_transcriber \<le> 300" by (simp add: idle_transcriber_eq used_transcriber_eq)
  from idle_unload_after_pass [OF a b, of 1320 2 1400 1403] idle_unload_after_pass [OF a b, of 1290 2 1400 1403]
    a b c d
  show ?thesis
    by (simp add: idle_transcriber_eq used_transcriber_eq transcriber_eval)
qed

section \<open>Speech\<close>

lemma stop_speech_spoken: "spoken (stop_speech joined s) = spoken s"
  by (simp add: stop_speech_def speech_worker_finally_def Let_def)

text \<open>
  C2. When a speech job is active and the trigger finds a selected text, the handler
  only stops the speech: no worker is started, the mixer is no longer playing, and the
  stop request is raised; when the worker ends within the join, its \<open>finally\<close> block has
  cleared \<open>is_speaking\<close> and the request with it.
\<close>

theorem speak_trigger_toggles:
  assumes "is_speaking s" "txt \<noteq> []"
  shows "speak_selected_text (Some txt) joined s = stop_speech joined s \<and>
         spoken (speak_selected_text (Some txt) joined s) = spoken s \<and>
         \<not> mixer_busy (speak_selected_text (Some txt) joined s) \<and>
         (speech_thread_alive s \<and> joined \<longrightarrow>
            \<not> is_speaking (speak_selected_text (Some txt) joined s) \<and>
            \<not> speech_thread_alive (speak_selected_text (Some txt) joined s)) \<and>
         (\<not> (speech_thread_alive s \<and> joined) \<longrightarrow>
            stop_requested (speak_selected_text (Some txt) joined s))"
  using assms
  by (simp add: speak_selected_text_def stop_speech_def speech_worker_finally_def Let_def)

lemmas text_eval = clean_text_def clean_word_def split_def strip_def lower_def lower_cp_def
  isspace_def replacements_def str_def Let_def

lemma clean_hello: "clean_text (str ''Hello'') = str ''Hello''"
  by (simp add: text_eval)

lemma strip_hello: "strip (str ''Hello'') = str ''Hello''"
  by (simp add: text_eval)

lemma speaking_tts_eq:
  "speaking_tts = \<lparr> is_speaking = True, stop_requested = False, mixer_busy = True,
                     speech_thread_alive = True, spoken = [str ''Hello''] \<rparr>"
proof -
  have "str ''Hello'' \<noteq> []" by (simp add: str_def)
  then show ?thesis
    unfolding speaking_tts_def speak_text_def clean_hello strip_hello
    by (simp add: play_audio_begin_def speech_worker_begin_def stop_speech_def
        TextToSpeech_init_def Let_def) (simp add: str_def)
qed

theorem speak_trigger_toggles_witness:
  "is_speaking speaking_tts \<and> str ''Hello'' \<noteq> [] \<and> mixer_busy speaking_tts \<and>
   speak_selected_text (Some (str ''Hello'')) False speaking_tts
     = speaking_tts\<lparr>stop_requested := True, mixer_busy := False\<rparr> \<and>
   spoken (speak_selected_text (Some (str ''Hello'')) False speaking_tts) = [str ''Hello''] \<and>
   stop_requested (speak_selected_text (Some (str ''Hello'')) False speaking_tts) \<and>
   \<not> is_speaking (speak_selected_text (Some (str ''Hello'')) True speaking_tts) \<and>
   spoken (speak_selected_text (Some (str ''Hello'')) True speaking_tts) = [str ''Hello'']"
proof -
  have a: "is_speaking speaking_tts" by (simp add: speaking_tts_eq)
  have b: "str ''Hello'' \<noteq> []" by (simp add: str_def)
  have c: "speech_thread_alive speaking_tts" "mixer_busy speaking_tts"
    by (simp_all add: speaking_tts_eq)
  have d: "stop_speech False speaking_tts = speaking_tts\<lparr>stop_requested := True, mixer_busy := False\<rparr>"
    by (simp add: stop_speech_def a c Let_def)
  have e: "spoken speaking_tts = [str ''Hello'']" by (simp add: speaking_tts_eq)
  from speak_trigger_toggles [OF a b, of False] speak_trigger_toggles [OF a b, of True] a b c d e
  show ?thesis by (simp add: stop_speech_def speech_worker_finally_def Let_def)
qed

section \<open>Texts without special characters\<close>

lemma startswith_hd: "startswith s old \<Longrightarrow> old \<noteq> [] \<Longrightarrow> s \<noteq> [] \<and> hd s = hd old"
  by (cases s; cases old) simp_all

lemma replace_absent: "old \<noteq> [] \<Longrightarrow> hd old \<notin> set s \<Longrightarrow> replace s old new = s"
proof (induction s)
  case Nil
  then show ?case by simp
next
  case (Cons c cs)
  have "\<not> startswith (c # cs) old"
    using Cons.prems startswith_hd [of "c # cs" old] by auto
  then show ?case using Cons by simp
qed

lemma contains_absent: "sub \<noteq> [] \<Longrightarrow> hd sub \<notin> set s \<Longrightarrow> \<not> contains s sub"
proof (induction s)
  case Nil
  then show ?case by simp
next
  case (Cons c cs)
  have "\<not> startswith (c # cs) sub"
    using Cons.prems startswith_hd [of "c # cs" sub] by auto
  then show ?case using Cons by simp
qed

lemma split_from_no_space:
  "\<forall>c \<in> set s. \<not> isspace c \<Longrightarrow> split_from w s = (if w @ s = [] then [] else [w @ s])"
  by (induction s arbitrary: w) simp_all

lemma strip_no_space: "\<forall>c \<in> set s. \<not> isspace c \<Longrightarrow> strip s = s"
proof -
  assume a: "\<forall>c \<in> set s. \<not> isspace c"
  have dw: "dropWhile isspace xs = xs" if "\<forall>c \<in> set xs. \<not> isspace c" for xs
    using that by (cases xs) simp_all
  show ?thesis using a by (simp add: strip_def dw)
qed

lemma replacements_absent:
  "\<forall>(symbol, replacement) \<in> set rs. symbol \<noteq> [] \<and> hd symbol \<notin> set s \<Longrightarrow>
     foldl (\<lambda>t (symbol, replacement). replace t symbol replacement) s rs = s"
  by (induction rs) (auto simp: replace_absent)

lemma clean_text_a: "clean_text (replicate n 97) = replicate n 97"
proof (cases n)
  case 0
  then show ?thesis by (simp add: clean_text_def)
next
  case (Suc k)
  let ?s = "replicate n (97::nat)"
  have ne: "?s \<noteq> []" using Suc by simp
  have set: "set ?s = {97}" using Suc by (simp add: set_replicate_conv_if)
  have nosp: "\<forall>c \<in> set ?s. \<not> isspace c" by (simp add: isspace_def)
  have t1: "join (str '' '') (split ?s) = ?s"
    using ne by (simp add: split_def split_from_no_space [OF nosp])
  have t2: "foldl (\<lambda>t (symbol, replacement). replace t symbol replacement) ?s replacements = ?s"
    by (rule replacements_absent) (simp add: replacements_def set)
  have low: "lower ?s = ?s" by (simp add: lower_def lower_cp_def)
  have t3: "\<not> contains ?s (str ''http'')"
    by (rule contains_absent) (simp_all add: str_def set)
  have t4: "\<not> contains ?s [64]"
    by (rule contains_absent) (simp_all add: set)
  have r: "replace ?s [42, 42] [] = ?s" "replace ?s [42] [] = ?s" "replace ?s [95, 95] [] = ?s"
    "replace ?s [95] [] = ?s" "replace ?s [96, 96, 96] [] = ?s" "replace ?s [96] [] = ?s"
    "replace ?s [35, 35] [] = ?s" "replace ?s [35] [] = ?s"
    by (simp_all add: replace_absent set)
  show ?thesis
    unfolding clean_text_def Let_def t1 t2 low
    using ne t3 t4 by (simp add: r t1 strip_no_space [OF nosp])
qed

text \<open>
  C10. \<open>speak_text\<close> starts no worker when the text is empty, consists of white space or
  is empty after cleaning. Otherwise it starts one worker, and the text handed to it is
  the cleaned text when that has at most 500 characters, and else its first 497
  characters followed by three dots; in both cases it has at most 500 characters.
\<close>

theorem speak_text_at_most_500:
  "(text = [] \<or> strip text = [] \<or> clean_text text = [] \<longrightarrow>
      spoken (speak_text text joined s) = spoken s) \<and>
   (text \<noteq> [] \<and> strip text \<noteq> [] \<and> clean_text text \<noteq> [] \<longrightarrow>
      (\<exists>handed. spoken (speak_text text joined s) = spoken s @ [handed] \<and>
         length handed \<le> 500 \<and>
         (length (clean_text text) > 500 \<longrightarrow> handed = take 497 (clean_text text) @ str ''...'') \<and>
         (length (clean_text text) \<le> 500 \<longrightarrow> handed = clean_text text)))"
  by (auto simp: speak_text_def stop_speech_spoken Let_def str_def)

theorem speak_text_at_most_500_witness:
  "replicate 600 (97::nat) \<noteq> [] \<and> strip (replicate 600 97) \<noteq> [] \<and> clean_text (replicate 600 97) \<noteq> [] \<and>
   length (clean_text (replicate 600 97)) > 500 \<and>
   spoken (speak_text (replicate 600 97) False TextToSpeech_init) = [replicate 497 97 @ str ''...''] \<and>
   length (replicate 497 (97::nat) @ str ''...'') = 500 \<and>
   spoken (speak_text (str ''Hello'') False TextToSpeech_init) = [str ''Hello''] \<and>
   spoken (speak_text [] False TextToSpeech_init) = []"
proof -
  have nosp: "\<forall>c \<in> set (replicate 600 (97::nat)). \<not> isspace c" by (simp add: isspace_def)
  have a: "replicate 600 (97::nat) \<noteq> []" by simp
  have b: "strip (replicate 600 97) \<noteq> []" by (simp add: strip_no_space [OF nosp])
  have c: "clean_text (replicate 600 97) \<noteq> []" by (simp add: clean_text_a)
  have d: "length (clean_text (replicate 600 97)) > 500" by (simp add: clean_text_a)
  have e: "str ''Hello'' \<noteq> []" "length (str ''Hello'') \<le> 500" by (simp_all add: str_def)
  have i: "spoken TextToSpeech_init = []" by (simp add: TextToSpeech_init_def)
  from speak_text_at_most_500 [of "replicate 600 97" False TextToSpeech_init] a b c d i
  have f: "spoken (speak_text (replicate 600 97) False TextToSpeech_init) = [replicate 497 97 @ str ''...'']"
    by (auto simp: clean_text_a)
  from speak_text_at_most_500 [of "str ''Hello''" False TextToSpeech_init] e i
  have g: "spoken (speak_text (str ''Hello'') False TextToSpeech_init) = [str ''Hello'']"
    by (auto simp: clean_hello strip_hello)
  from speak_text_at_most_500 [of "[]" False TextToSpeech_init] i
  have h: "spoken (speak_text [] False TextToSpeech_init) = []" by simp
  have l: "length (replicate 497 (97::nat) @ str ''...'') = 500" by (simp add: str_def)
  from a b c d f g h l show ?thesis by blast
qed

end
